theory Spec2Isabelle
  imports Main
begin

section \<open>The multi-instance log viewer (scripts/multi\_instance\_log\_viewer.py)\<close>

text \<open>
  The viewer is a single-threaded polling loop over an environment it does not control:
  log files that other processes append to, a PID file, the process table, and a
  keyboard. The embedding passes that environment in explicitly, one snapshot per loop
  iteration, and threads the viewer's own variables through a record.

  Python exceptions are values. A function that can let an exception escape returns
  \<open>py_exc + 'a\<close>, with \<open>Inl\<close> for the exception.
\<close>

subsection \<open>Python values and library functions the script uses\<close>

datatype py_exc = OSError | ValueError | OverflowError | KeyError

text \<open>Slices \<open>s[:n]\<close> and \<open>s[n:]\<close> for a Python integer \<open>n\<close>: a negative bound counts
  from the end, and bounds outside the sequence are clamped (no exception).\<close>

definition py_slice_to :: "int \<Rightarrow> 'a list \<Rightarrow> 'a list" where
  "py_slice_to n xs = (if 0 \<le> n then take (nat n) xs else take (length xs - nat (- n)) xs)"

definition py_slice_from :: "int \<Rightarrow> 'a list \<Rightarrow> 'a list" where
  "py_slice_from n xs = (if 0 \<le> n then drop (nat n) xs else drop (length xs - nat (- n)) xs)"

text \<open>\<open>str(n)\<close> for integers, as \<open>str.format\<close> and f-strings render them.\<close>

definition digit_char :: "nat \<Rightarrow> char" where
  "digit_char d = ''0123456789'' ! (d mod 10)"

function str_nat :: "nat \<Rightarrow> string" where
  "str_nat n = (if n < 10 then [digit_char n] else str_nat (n div 10) @ [digit_char (n mod 10)])"
  by pat_completeness auto
termination
  by (relation "measure (\<lambda>n. n)") auto

declare str_nat.simps [simp del]

definition str_int :: "int \<Rightarrow> string" where
  "str_int i = (if i < 0 then CHR ''-'' # str_nat (nat (- i)) else str_nat (nat i))"

text \<open>
  Text is modelled as \<open>string\<close> with one character per byte: the characters are ASCII.
  The line boundaries of \<open>str.splitlines\<close> in that range are LF, CR, CR LF, VT, FF, FS,
  GS and RS; the white space of \<open>str.strip\<close> is these, TAB, US and the blank.
\<close>

definition is_linebreak :: "char \<Rightarrow> bool" where
  "is_linebreak c = (c \<in> {CHR 0x0A, CHR 0x0B, CHR 0x0C, CHR 0x0D, CHR 0x1C, CHR 0x1D, CHR 0x1E})"

definition is_space :: "char \<Rightarrow> bool" where
  "is_space c = (c \<in> {CHR 0x09, CHR 0x0A, CHR 0x0B, CHR 0x0C, CHR 0x0D,
                       CHR 0x1C, CHR 0x1D, CHR 0x1E, CHR 0x1F, CHR 0x20})"

text \<open>\<open>s.splitlines(keepends=True)\<close>; the first argument is the line read so far.\<close>

fun splitlines_from :: "string \<Rightarrow> string \<Rightarrow> string list" where
  "splitlines_from cur [] = (if cur = [] then [] else [cur])"
| "splitlines_from cur [c] = [cur @ [c]]"
| "splitlines_from cur (c # d # cs) =
     (if c = CHR 0x0D \<and> d = CHR 0x0A then (cur @ [c, d]) # splitlines_from [] cs
      else if is_linebreak c then (cur @ [c]) # splitlines_from [] (d # cs)
      else splitlines_from (cur @ [c]) (d # cs))"

definition splitlines :: "string \<Rightarrow> string list" where
  "splitlines s = splitlines_from [] s"

text \<open>Iterating over a text file yields its lines, each ending at LF (kept), the last one
  possibly without.\<close>

fun file_lines_from :: "string \<Rightarrow> string \<Rightarrow> string list" where
  "file_lines_from cur [] = (if cur = [] then [] else [cur])"
| "file_lines_from cur (c # cs) =
     (if c = CHR 0x0A then (cur @ [c]) # file_lines_from [] cs
      else file_lines_from (cur @ [c]) cs)"

definition file_lines :: "string \<Rightarrow> string list" where
  "file_lines s = file_lines_from [] s"

definition strip :: "string \<Rightarrow> string" where
  "strip s = rev (dropWhile is_space (rev (dropWhile is_space s)))"

text \<open>\<open>line.rstrip("\n\r")\<close>.\<close>

definition rstrip_newlines :: "string \<Rightarrow> string" where
  "rstrip_newlines s = rev (dropWhile (\<lambda>c. c = CHR 0x0A \<or> c = CHR 0x0D) (rev s))"

definition is_digit_char :: "char \<Rightarrow> bool" where
  "is_digit_char c = (c \<in> set ''0123456789'')"

definition isdigit :: "string \<Rightarrow> bool" where
  "isdigit s = (s \<noteq> [] \<and> list_all is_digit_char s)"

text \<open>\<open>int(s)\<close> on a string of decimal digits, the only strings \<open>count_running\<close> passes
  to it.\<close>

definition digit_value :: "char \<Rightarrow> int" where
  "digit_value c = int (of_char c) - 48"

definition int_of_digits :: "string \<Rightarrow> int" where
  "int_of_digits s = foldl (\<lambda>a c. 10 * a + digit_value c) 0 s"

text \<open>\<open>os.path.join(d, name)\<close> for a relative \<open>name\<close>.\<close>

definition path_join :: "string \<Rightarrow> string \<Rightarrow> string" where
  "path_join d name =
     (if d = [] then name
      else if last d = CHR ''/'' then d @ name
      else d @ ''/'' @ name)"

definition instance_path :: "string \<Rightarrow> int \<Rightarrow> string" where
  "instance_path log_dir i = path_join log_dir (''instance_'' @ str_int i @ ''.log'')"

subsection \<open>The environment: files and processes\<close>

text \<open>
  A path names nothing, a directory, or a regular file. Opening a regular file for
  reading either raises \<open>OSError\<close> (permissions, an I/O failure) or gives its text.
  The script opens its files in text mode; with ASCII text free of carriage returns, the
  text read is the bytes of the file, and a position counts characters and bytes alike.
\<close>

datatype fnode = Directory | Unreadable | Readable string

type_synonym filesystem = "string \<Rightarrow> fnode option"

definition isfile :: "filesystem \<Rightarrow> string \<Rightarrow> bool" where
  "isfile fs p = (case fs p of Some Unreadable \<Rightarrow> True | Some (Readable _) \<Rightarrow> True | _ \<Rightarrow> False)"


definition open_read :: "filesystem \<Rightarrow> string \<Rightarrow> py_exc + string" where
  "open_read fs p = (case fs p of Some (Readable c) \<Rightarrow> Inr c | _ \<Rightarrow> Inl OSError)"

text \<open>
  \<open>os.kill(pid, 0)\<close> probes a process without signalling it. The process table says, for
  each PID, whether the probe succeeds, finds no such process, or is not permitted; the
  last two raise \<open>OSError\<close> (\<open>ProcessLookupError\<close>, \<open>PermissionError\<close>). The PID argument
  is converted to the C type \<open>pid_t\<close>, a 32-bit signed integer, before any system call:
  a Python integer outside that range raises \<open>OverflowError\<close>.
\<close>

datatype probe = Exists | NoSuchProcess | NotPermitted

type_synonym proctable = "int \<Rightarrow> probe"

definition os_kill0 :: "proctable \<Rightarrow> int \<Rightarrow> py_exc + unit" where
  "os_kill0 procs pid =
     (if pid < - 2147483648 \<or> 2147483647 < pid then Inl OverflowError
      else case procs pid of
             Exists \<Rightarrow> Inr ()
           | NoSuchProcess \<Rightarrow> Inl OSError
           | NotPermitted \<Rightarrow> Inl OSError)"

record world =
  files :: filesystem
  procs :: proctable

subsection \<open>Liveness: \<open>count_running\<close> and \<open>_process_exists\<close>\<close>

definition process_exists :: "proctable \<Rightarrow> int \<Rightarrow> py_exc + bool" where
  "process_exists ps pid =
     (case os_kill0 ps pid of
        Inr _ \<Rightarrow> Inr True
      | Inl e \<Rightarrow> (if e = OSError then Inr False else Inl e))"

text \<open>\<open>sum(1 for p in pids if _process_exists(p))\<close>: the first probe that raises ends the
  sum.\<close>

fun sum_existing :: "proctable \<Rightarrow> int list \<Rightarrow> py_exc + int" where
  "sum_existing ps [] = Inr 0"
| "sum_existing ps (p # rest) =
     (case process_exists ps p of
        Inl e \<Rightarrow> Inl e
      | Inr b \<Rightarrow> (case sum_existing ps rest of
                    Inl e \<Rightarrow> Inl e
                  | Inr n \<Rightarrow> Inr ((if b then 1 else 0) + n)))"

definition parse_pids :: "string \<Rightarrow> int list" where
  "parse_pids content = map int_of_digits (filter isdigit (map strip (file_lines content)))"

definition count_running :: "world \<Rightarrow> string \<Rightarrow> py_exc + int" where
  "count_running w pids_file =
     (if pids_file = [] \<or> \<not> isfile (files w) pids_file then Inr 0
      else case (case open_read (files w) pids_file of
                   Inl e \<Rightarrow> Inl e
                 | Inr content \<Rightarrow> sum_existing (procs w) (parse_pids content)) of
             Inr n \<Rightarrow> Inr n
           | Inl e \<Rightarrow> (if e = ValueError \<or> e = OSError then Inr 0 else Inl e))"

subsection \<open>Reading a log file: \<open>read_new_lines\<close>\<close>

text \<open>
  Positions are lengths of text read and results of \<open>tell\<close>, hence natural numbers.
  Seeking beyond the end of a file is allowed: the read then returns nothing and
  \<open>tell\<close> gives the position sought.
\<close>

definition read_new_lines :: "filesystem \<Rightarrow> string \<Rightarrow> nat \<Rightarrow> py_exc + string \<times> nat" where
  "read_new_lines fs path position =
     (if \<not> isfile fs path then Inr ([], position)
      else case open_read fs path of
             Inr content \<Rightarrow> Inr (drop position content, max position (length content))
           | Inl e \<Rightarrow> (if e = OSError then Inr ([], position) else Inl e))"

subsection \<open>The interactive viewer: \<open>run_curses\<close>\<close>

text \<open>
  The variables of \<open>run_curses\<close> that its nested functions and its loop share. The screen
  is the text last written to each row by \<open>addstr(row, 0, text)\<close>; a cleared row holds
  the empty text.
\<close>

record viewer =
  log_dir :: string
  count :: int
  pids_file :: string
  height :: int
  width :: int
  instance_buffers :: "int \<rightharpoonup> string list"
  current :: int
  file_positions :: "int \<rightharpoonup> nat"
  status_redraw_counter :: int
  screen :: "int \<Rightarrow> string"

text \<open>\<open>STATUS_BAR_FORMAT.format(running, total, stopped, watching, max_key)\<close>.\<close>

definition STATUS_BAR_FORMAT :: "int \<Rightarrow> int \<Rightarrow> int \<Rightarrow> int \<Rightarrow> int \<Rightarrow> string" where
  "STATUS_BAR_FORMAT running tot stopped watching max_key =
     '' [ Instances: '' @ str_int running @ ''/'' @ str_int tot @ '' running, ''
       @ str_int stopped @ '' stopped | '' @ ''Watching: Instance '' @ str_int watching
       @ '' | Keys: 1-'' @ str_int max_key @ '' switch, q quit ] ''"

definition status_line :: "viewer \<Rightarrow> int \<Rightarrow> string" where
  "status_line s running =
     STATUS_BAR_FORMAT running (count s) (count s - running) (current s) (count s)"

definition draw_status_bar :: "world \<Rightarrow> viewer \<Rightarrow> py_exc + viewer" where
  "draw_status_bar w s =
     (case count_running w (pids_file s) of
        Inl e \<Rightarrow> Inl e
      | Inr running \<Rightarrow>
          Inr (s\<lparr>screen := (screen s)(0 := py_slice_to (width s - 1) (status_line s running))\<rparr>))"

text \<open>\<open>draw_log\<close>: clear rows \<open>1 .. height - 1\<close>, select the visible lines, write them from
  row 1 on. An error of \<open>addstr\<close> is swallowed by the source and changes nothing else.\<close>

definition clear_log_rows :: "int \<Rightarrow> (int \<Rightarrow> string) \<Rightarrow> (int \<Rightarrow> string)" where
  "clear_log_rows h scr = (\<lambda>r. if 1 \<le> r \<and> r < h then [] else scr r)"

definition visible_lines :: "int \<Rightarrow> string list \<Rightarrow> string list" where
  "visible_lines log_height buf =
     (if log_height < int (length buf) then py_slice_from (- log_height) buf else buf)"

fun write_lines :: "int \<Rightarrow> int \<Rightarrow> int \<Rightarrow> string list \<Rightarrow> (int \<Rightarrow> string) \<Rightarrow> (int \<Rightarrow> string)" where
  "write_lines h wd row [] scr = scr"
| "write_lines h wd row (line # rest) scr =
     (if h \<le> row then scr
      else write_lines h wd (row + 1) rest
             (scr(row := py_slice_to (wd - 1) (rstrip_newlines line @ [CHR 0x0A]))))"

definition draw_log :: "string list \<Rightarrow> viewer \<Rightarrow> viewer" where
  "draw_log buf s =
     s\<lparr>screen := write_lines (height s) (width s) 1 (visible_lines (height s - 1) buf)
                   (clear_log_rows (height s) (screen s))\<rparr>"

definition load_entire_log :: "world \<Rightarrow> int \<Rightarrow> viewer \<Rightarrow> py_exc + viewer" where
  "load_entire_log w i s =
     (let path = instance_path (log_dir s) i in
      if \<not> isfile (files w) path then Inr s
      else case open_read (files w) path of
             Inr content \<Rightarrow>
               Inr (s\<lparr>file_positions := (file_positions s)(i \<mapsto> length content),
                     instance_buffers := (instance_buffers s)(i \<mapsto> splitlines content)\<rparr>)
           | Inl e \<Rightarrow> (if e = OSError then Inr s else Inl e))"

text \<open>One pass through the body of \<open>while True\<close>. \<open>getch\<close> gives a key code, \<open>-1\<close> when
  no key arrived within the timeout, or raises \<open>curses.error\<close>, which the source turns
  into \<open>-1\<close>.\<close>

datatype getch = Key int | CursesError

datatype outcome = Return int | Continue viewer | Raise py_exc

text \<open>\<open>ord(c)\<close> for an ASCII character.\<close>

definition ord :: "char \<Rightarrow> int" where
  "ord c = int (of_char c)"

definition key_code :: "getch \<Rightarrow> int" where
  "key_code g = (case g of Key c \<Rightarrow> c | CursesError \<Rightarrow> - 1)"

definition is_quit :: "int \<Rightarrow> bool" where
  "is_quit ch = (ch = ord CHR ''q'' \<or> ch = ord CHR ''Q'' \<or> ch = 4)"

definition switch_to :: "world \<Rightarrow> int \<Rightarrow> viewer \<Rightarrow> outcome" where
  "switch_to w idx s =
     (let s1 = s\<lparr>current := idx\<rparr> in
      case instance_buffers s1 (current s1) of
        None \<Rightarrow> Raise KeyError
      | Some b \<Rightarrow>
          (case (if b = [] then load_entire_log w (current s1) s1 else Inr s1) of
             Inl e \<Rightarrow> Raise e
           | Inr s2 \<Rightarrow>
               (case draw_status_bar w s2 of
                  Inl e \<Rightarrow> Raise e
                | Inr s3 \<Rightarrow>
                    (case instance_buffers s3 (current s3) of
                       None \<Rightarrow> Raise KeyError
                     | Some buf \<Rightarrow> Continue ((draw_log buf s3)\<lparr>status_redraw_counter := 0\<rparr>)))))"

text \<open>\<open>file_positions.get(i, 0)\<close>.\<close>

definition position_of :: "viewer \<Rightarrow> int \<Rightarrow> nat" where
  "position_of s i = (case file_positions s i of Some p \<Rightarrow> p | None \<Rightarrow> 0)"

definition refresh_content :: "world \<Rightarrow> viewer \<Rightarrow> py_exc + viewer" where
  "refresh_content w s =
     (case read_new_lines (files w) (instance_path (log_dir s) (current s))
             (position_of s (current s)) of
        Inl e \<Rightarrow> Inl e
      | Inr (new_text, new_pos) \<Rightarrow>
          (let s1 = s\<lparr>file_positions := (file_positions s)(current s \<mapsto> new_pos)\<rparr> in
           if new_text \<noteq> [] then
             (case instance_buffers s1 (current s1) of
                None \<Rightarrow> Inl KeyError
              | Some b \<Rightarrow>
                  (let buf = b @ splitlines new_text in
                   Inr (draw_log buf
                          (s1\<lparr>instance_buffers := (instance_buffers s1)(current s1 \<mapsto> buf)\<rparr>))))
           else Inr s1))"

definition status_tick :: "world \<Rightarrow> viewer \<Rightarrow> outcome" where
  "status_tick w s =
     (let s1 = s\<lparr>status_redraw_counter := status_redraw_counter s + 1\<rparr> in
      if 40 \<le> status_redraw_counter s1 then
        (case draw_status_bar w (s1\<lparr>status_redraw_counter := 0\<rparr>) of
           Inl e \<Rightarrow> Raise e
         | Inr s2 \<Rightarrow> Continue s2)
      else Continue s1)"

definition refresh_and_tick :: "world \<Rightarrow> viewer \<Rightarrow> outcome" where
  "refresh_and_tick w s =
     (case refresh_content w s of
        Inl e \<Rightarrow> Raise e
      | Inr s1 \<Rightarrow> status_tick w s1)"

definition loop_iter :: "world \<Rightarrow> getch \<Rightarrow> viewer \<Rightarrow> outcome" where
  "loop_iter w g s =
     (let ch = key_code g in
      if is_quit ch then Return 0
      else if ord CHR ''1'' \<le> ch \<and> ch \<le> ord CHR ''9'' then
        (let idx = ch - ord CHR ''0'' in
         if 1 \<le> idx \<and> idx \<le> count s \<and> idx \<noteq> current s then switch_to w idx s
         else refresh_and_tick w s)
      else refresh_and_tick w s)"

text \<open>
  The loop itself may run forever, so its result is optional: \<open>None\<close> is a run that
  never leaves the loop. A run that ends either returns an exit status or dies with an
  exception. The \<open>n\<close>-th iteration sees the \<open>n\<close>-th key event and environment snapshot.
\<close>

datatype exit = Returned int | Raised py_exc

partial_function (option) curses_loop :: "(nat \<Rightarrow> getch \<times> world) \<Rightarrow> nat \<Rightarrow> viewer \<Rightarrow> exit option" where
  "curses_loop inp n s =
     (case loop_iter (snd (inp n)) (fst (inp n)) s of
        Return c \<Rightarrow> Some (Returned c)
      | Raise e \<Rightarrow> Some (Raised e)
      | Continue s' \<Rightarrow> curses_loop inp (Suc n) s')"

text \<open>The state \<open>run_curses\<close> builds before its first draw; \<open>h\<close> and \<open>wd\<close> are what
  \<open>getmaxyx\<close> reports.\<close>

definition initial_viewer :: "string \<Rightarrow> int \<Rightarrow> string \<Rightarrow> int \<Rightarrow> int \<Rightarrow> viewer" where
  "initial_viewer ld cnt pf h wd =
     \<lparr>log_dir = ld, count = cnt, pids_file = pf, height = h, width = wd,
      instance_buffers = (\<lambda>i. if 1 \<le> i \<and> i < cnt + 1 then Some [] else None),
      current = 1, file_positions = Map.empty, status_redraw_counter = 0,
      screen = (\<lambda>r. [])\<rparr>"


subsection \<open>The fallback viewer: \<open>run_fallback\<close>\<close>





subsection \<open>\<open>main\<close>\<close>




subsection \<open>Observing the outcome of an iteration\<close>


subsection \<open>Concrete environments and states used as examples\<close>

definition empty_world :: world where
  "empty_world = \<lparr>files = Map.empty, procs = (\<lambda>pid. NoSuchProcess)\<rparr>"

text \<open>A user who presses \<open>q\<close> at once.\<close>

definition quit_input :: "nat \<Rightarrow> getch \<times> world" where
  "quit_input = (\<lambda>n. (Key 113, empty_world))"



text \<open>A PID file whose only line is the number \<open>2^31\<close>.\<close>

definition overflow_world :: world where
  "overflow_world = \<lparr>files = [''pids'' \<mapsto> Readable ''2147483648\<newline>''],
                       procs = (\<lambda>pid. NoSuchProcess)\<rparr>"





text \<open>A viewer that has read all of the two characters of its log, and the world after
  \<open>hello\<close> and a newline were appended to that log.\<close>

definition caught_up_viewer :: viewer where
  "caught_up_viewer =
     (initial_viewer ''logs'' 3 [] 24 80)
       \<lparr>instance_buffers := (instance_buffers (initial_viewer ''logs'' 3 [] 24 80))
                               (1 \<mapsto> [''a\<newline>'']),
        file_positions := [1 \<mapsto> 2]\<rparr>"

definition hello_world :: world where
  "hello_world = \<lparr>files = [''logs/instance_1.log'' \<mapsto> Readable ''a\<newline>hello\<newline>''],
                    procs = (\<lambda>pid. NoSuchProcess)\<rparr>"

text \<open>A viewer watching source 2, whose buffer holds the one line of its log.\<close>

definition watching_two :: viewer where
  "watching_two =
     (initial_viewer ''logs'' 3 [] 24 80)
       \<lparr>instance_buffers := (instance_buffers (initial_viewer ''logs'' 3 [] 24 80))
                               (2 \<mapsto> [''a\<newline>'']),
        current := 2,
        file_positions := [1 \<mapsto> 0, 2 \<mapsto> 2]\<rparr>"

definition three_logs_world :: world where
  "three_logs_world =
     \<lparr>files = [''logs/instance_2.log'' \<mapsto> Readable ''a\<newline>'',
               ''logs/instance_3.log'' \<mapsto> Readable ''b\<newline>c\<newline>''],
      procs = (\<lambda>pid. NoSuchProcess)\<rparr>"

section \<open>Properties\<close>

subsection \<open>Auxiliary facts\<close>

lemma open_read_raises: "open_read fs p = Inl e \<Longrightarrow> e = OSError"
  by (auto simp: open_read_def split: option.splits fnode.splits)

lemma read_new_lines_cases:
  "read_new_lines fs p pos =
     (case fs p of Some (Readable content) \<Rightarrow> Inr (drop pos content, max pos (length content))
                 | _ \<Rightarrow> Inr ([], pos))"
  by (simp add: read_new_lines_def isfile_def open_read_def split: option.splits fnode.splits)

lemma concat_splitlines_from: "concat (splitlines_from cur xs) = cur @ xs"
  by (induction cur xs rule: splitlines_from.induct) auto

text \<open>Splitting into lines loses and invents no character.\<close>

lemma concat_splitlines: "concat (splitlines xs) = xs"
  by (simp add: splitlines_def concat_splitlines_from)

lemma splitlines_hello: "splitlines ''hello\<newline>'' = [''hello\<newline>'']"
  by (simp add: splitlines_def is_linebreak_def)



paragraph \<open>Which variables each step touches\<close>

lemma draw_status_bar_fields:
  assumes "draw_status_bar w s = Inr s'"
  shows "instance_buffers s' = instance_buffers s" "file_positions s' = file_positions s"
    "current s' = current s" "count s' = count s" "log_dir s' = log_dir s"
    "pids_file s' = pids_file s" "status_redraw_counter s' = status_redraw_counter s"
  using assms by (auto simp: draw_status_bar_def split: sum.splits)

lemma draw_status_bar_ok:
  "count_running w (pids_file s) = Inr r \<Longrightarrow> \<exists>s'. draw_status_bar w s = Inr s'"
  by (simp add: draw_status_bar_def)

lemma draw_log_fields:
  "instance_buffers (draw_log buf s) = instance_buffers s"
  "file_positions (draw_log buf s) = file_positions s"
  "current (draw_log buf s) = current s" "count (draw_log buf s) = count s"
  "log_dir (draw_log buf s) = log_dir s" "pids_file (draw_log buf s) = pids_file s"
  by (simp_all add: draw_log_def)

lemma status_tick_fields:
  assumes "status_tick w s = Continue s'"
  shows "instance_buffers s' = instance_buffers s" "file_positions s' = file_positions s"
    "current s' = current s" "count s' = count s" "log_dir s' = log_dir s"
    "pids_file s' = pids_file s"
  using assms
  by (auto simp: status_tick_def Let_def split: if_splits sum.splits dest: draw_status_bar_fields)

lemma status_tick_ok:
  "count_running w (pids_file s) = Inr r \<Longrightarrow> \<exists>s'. status_tick w s = Continue s'"
  using draw_status_bar_ok [of w "s\<lparr>status_redraw_counter := 0\<rparr>" r]
  by (auto simp: status_tick_def Let_def)

lemma load_entire_log_cases:
  "load_entire_log w i s =
     Inr (case files w (instance_path (log_dir s) i) of
            Some (Readable content) \<Rightarrow>
              s\<lparr>file_positions := (file_positions s)(i \<mapsto> length content),
                instance_buffers := (instance_buffers s)(i \<mapsto> splitlines content)\<rparr>
          | _ \<Rightarrow> s)"
  by (simp add: load_entire_log_def Let_def isfile_def open_read_def
      split: option.splits fnode.splits)

text \<open>What the content refresh (lines 139-147) does to the viewer's variables.\<close>

lemma refresh_content_fields:
  assumes "instance_buffers s (current s) = Some b"
    and "read_new_lines (files w) (instance_path (log_dir s) (current s))
           (position_of s (current s)) = Inr (txt, np)"
  shows "\<exists>s'. refresh_content w s = Inr s'
           \<and> current s' = current s \<and> count s' = count s \<and> log_dir s' = log_dir s
           \<and> pids_file s' = pids_file s
           \<and> file_positions s' = (file_positions s)(current s \<mapsto> np)
           \<and> instance_buffers s' =
               (if txt \<noteq> [] then (instance_buffers s)(current s \<mapsto> b @ splitlines txt)
                else instance_buffers s)"
  using assms by (simp add: refresh_content_def Let_def draw_log_fields)



lemma refresh_and_tick_fields:
  assumes "instance_buffers s (current s) = Some b"
    and "read_new_lines (files w) (instance_path (log_dir s) (current s))
           (position_of s (current s)) = Inr (txt, np)"
    and "count_running w (pids_file s) = Inr r"
  shows "\<exists>s'. refresh_and_tick w s = Continue s'
           \<and> current s' = current s \<and> count s' = count s \<and> log_dir s' = log_dir s
           \<and> pids_file s' = pids_file s
           \<and> file_positions s' = (file_positions s)(current s \<mapsto> np)
           \<and> instance_buffers s' =
               (if txt \<noteq> [] then (instance_buffers s)(current s \<mapsto> b @ splitlines txt)
                else instance_buffers s)"
proof -
  from refresh_content_fields [OF assms(1,2)] obtain s1 where
    r: "refresh_content w s = Inr s1" and
    f: "current s1 = current s" "count s1 = count s" "log_dir s1 = log_dir s"
       "pids_file s1 = pids_file s"
       "file_positions s1 = (file_positions s)(current s \<mapsto> np)"
       "instance_buffers s1 =
               (if txt \<noteq> [] then (instance_buffers s)(current s \<mapsto> b @ splitlines txt)
                else instance_buffers s)"
    by blast
  from status_tick_ok [of w s1 r] assms(3) f(4) obtain s' where t: "status_tick w s1 = Continue s'"
    by auto
  from r t have "refresh_and_tick w s = Continue s'"
    by (simp add: refresh_and_tick_def)
  with status_tick_fields [OF t] f show ?thesis by simp
qed

text \<open>What a switch to source \<open>idx\<close> (lines 132-138) does to the viewer's variables.\<close>

lemma switch_to_fields:
  assumes "instance_buffers s idx = Some b"
    and "count_running w (pids_file s) = Inr r"
  shows "\<exists>s'. switch_to w idx s = Continue s'
           \<and> current s' = idx \<and> count s' = count s \<and> log_dir s' = log_dir s
           \<and> pids_file s' = pids_file s
           \<and> (\<forall>i. i \<noteq> idx \<longrightarrow> instance_buffers s' i = instance_buffers s i
                               \<and> file_positions s' i = file_positions s i)
           \<and> (b \<noteq> [] \<longrightarrow> instance_buffers s' = instance_buffers s
                           \<and> file_positions s' = file_positions s)
           \<and> instance_buffers s' idx \<noteq> None"
  using assms
  by (auto simp: switch_to_def Let_def load_entire_log_cases draw_status_bar_def draw_log_fields
      split: option.splits fnode.splits)

paragraph \<open>Which branch of the loop body a key takes\<close>

lemma loop_iter_quit: "is_quit (key_code g) \<Longrightarrow> loop_iter w g s = Return 0"
  by (simp add: loop_iter_def)

lemma loop_iter_no_key: "key_code g = - 1 \<Longrightarrow> loop_iter w g s = refresh_and_tick w s"
  by (simp add: loop_iter_def is_quit_def ord_def)


lemma loop_iter_switch:
  assumes "ord CHR ''1'' \<le> ch" "ch \<le> ord CHR ''9''" "ch - ord CHR ''0'' \<le> count s"
    "ch - ord CHR ''0'' \<noteq> current s"
  shows "loop_iter w (Key ch) s = switch_to w (ch - ord CHR ''0'') s"
  using assms by (auto simp: loop_iter_def key_code_def is_quit_def ord_def Let_def)




paragraph \<open>The two loops\<close>

lemma curses_loop_quit_now:
  "is_quit (key_code (fst (inp n))) \<Longrightarrow> curses_loop inp n s = Some (Returned 0)"
  by (subst curses_loop.simps) (simp add: loop_iter_quit)






paragraph \<open>Where \<open>count_running\<close> is total\<close>

lemma parse_pids_overflow: "parse_pids ''2147483648\<newline>'' = [2147483648]"
  by (simp add: parse_pids_def file_lines_def strip_def is_space_def isdigit_def
      is_digit_char_def int_of_digits_def digit_value_def)

lemma digit_value_range: "is_digit_char c \<Longrightarrow> 0 \<le> digit_value c \<and> digit_value c \<le> 9"
  by (auto simp: is_digit_char_def digit_value_def)

lemma foldl_digits_nonneg:
  "list_all is_digit_char s \<Longrightarrow> 0 \<le> a \<Longrightarrow> 0 \<le> foldl (\<lambda>a c. 10 * a + digit_value c) a s"
proof (induction s arbitrary: a)
  case Nil
  then show ?case by simp
next
  case (Cons c s)
  then have "0 \<le> 10 * a + digit_value c"
    using digit_value_range [of c] by simp
  with Cons show ?case by simp
qed

lemma parse_pids_nonneg: "p \<in> set (parse_pids content) \<Longrightarrow> 0 \<le> p"
  by (auto simp: parse_pids_def int_of_digits_def isdigit_def intro: foldl_digits_nonneg)

lemma sum_existing_in_range:
  "\<forall>p \<in> set pids. 0 \<le> p \<and> p \<le> 2147483647 \<Longrightarrow>
     \<exists>n. sum_existing ps pids = Inr n \<and> 0 \<le> n \<and> n \<le> int (length pids)"
proof (induction pids)
  case Nil
  then show ?case by simp
next
  case (Cons p pids)
  then obtain n where n: "sum_existing ps pids = Inr n" "0 \<le> n" "n \<le> int (length pids)"
    by auto
  from Cons.prems have "\<exists>b. process_exists ps p = Inr b"
    by (auto simp: process_exists_def os_kill0_def split: probe.splits)
  with n show ?case by auto
qed

text \<open>As long as every PID of the file fits \<open>pid_t\<close>, \<open>count_running\<close> returns a count
  and raises nothing; a path that is empty, absent, a directory or unreadable counts 0.\<close>

lemma count_running_in_range:
  assumes "\<And>content. files w pf = Some (Readable content) \<Longrightarrow>
             \<forall>p \<in> set (parse_pids content). p \<le> 2147483647"
  shows "\<exists>n. count_running w pf = Inr n \<and> 0 \<le> n"
proof (cases "files w pf")
  case None
  then show ?thesis by (simp add: count_running_def isfile_def)
next
  case (Some node)
  show ?thesis
  proof (cases node)
    case Directory
    with Some show ?thesis by (simp add: count_running_def isfile_def)
  next
    case Unreadable
    with Some show ?thesis by (simp add: count_running_def isfile_def open_read_def)
  next
    case (Readable content)
    with Some assms have "\<forall>p \<in> set (parse_pids content). 0 \<le> p \<and> p \<le> 2147483647"
      using parse_pids_nonneg by blast
    from sum_existing_in_range [OF this, of "procs w"] Some Readable show ?thesis
      by (auto simp: count_running_def isfile_def open_read_def)
  qed
qed

lemma count_running_unusable_path:
  "pf = [] \<or> files w pf = None \<or> files w pf = Some Directory \<or> files w pf = Some Unreadable
     \<Longrightarrow> count_running w pf = Inr 0"
  by (auto simp: count_running_def isfile_def open_read_def)

subsection \<open>Incremental reading\<close>



text \<open>
  Claim C1. The viewer watches a source whose buffer holds exactly the text of its log
  and whose stored position is the length of that log. After \<open>hello\<close> and a newline are
  appended to the log, one iteration without a key press appends that line to the end
  of the buffer and advances the stored position by the six characters appended; the
  buffer still holds exactly the text of the log. A further iteration over the same
  log leaves buffers and positions as they are. (The liveness probe of the status
  refresh is assumed not to raise.)
\<close>

theorem exactly_once_read:
  fixes s :: viewer and w1 w2 :: world and g1 g2 :: getch and buf :: "string list"
    and content :: string and r1 r2 :: int
  assumes "instance_buffers s (current s) = Some buf"
    and "concat buf = content"
    and "position_of s (current s) = length content"
    and "files w1 (instance_path (log_dir s) (current s))
           = Some (Readable (content @ ''hello\<newline>''))"
    and "files w2 (instance_path (log_dir s) (current s))
           = Some (Readable (content @ ''hello\<newline>''))"
    and "key_code g1 = - 1" and "key_code g2 = - 1"
    and "count_running w1 (pids_file s) = Inr r1" and "count_running w2 (pids_file s) = Inr r2"
  shows "\<exists>s1 s2. loop_iter w1 g1 s = Continue s1
           \<and> instance_buffers s1 (current s) = Some (buf @ [''hello\<newline>''])
           \<and> position_of s1 (current s) = position_of s (current s) + length ''hello\<newline>''
           \<and> concat (buf @ [''hello\<newline>'']) = content @ ''hello\<newline>''
           \<and> loop_iter w2 g2 s1 = Continue s2
           \<and> instance_buffers s2 = instance_buffers s1
           \<and> file_positions s2 = file_positions s1"
proof -
  let ?c = "current s"
  let ?p = "instance_path (log_dir s) ?c"
  have rd1: "read_new_lines (files w1) ?p (position_of s ?c)
               = Inr (''hello\<newline>'', length content + 6)"
    using assms(3,4) by (simp add: read_new_lines_cases)
  from refresh_and_tick_fields [OF assms(1) rd1 assms(8)] obtain s1 where
    s1: "refresh_and_tick w1 s = Continue s1" and
    f1: "current s1 = ?c" "log_dir s1 = log_dir s" "pids_file s1 = pids_file s"
        "file_positions s1 = (file_positions s)(?c \<mapsto> length content + 6)"
        "instance_buffers s1 = (instance_buffers s)(?c \<mapsto> buf @ [''hello\<newline>''])"
    by (auto simp: splitlines_hello)
  have b1: "instance_buffers s1 (current s1) = Some (buf @ [''hello\<newline>''])"
    using f1 by simp
  have p1: "position_of s1 ?c = length content + 6"
    using f1 by (simp add: position_of_def)
  have rd2: "read_new_lines (files w2) (instance_path (log_dir s1) (current s1))
               (position_of s1 (current s1)) = Inr ([], length content + 6)"
    using assms(5) f1 p1 by (simp add: read_new_lines_cases)
  from refresh_and_tick_fields [OF b1 rd2] assms(9) f1 obtain s2 where
    s2: "refresh_and_tick w2 s1 = Continue s2" and
    f2: "file_positions s2 = (file_positions s1)(current s1 \<mapsto> length content + 6)"
        "instance_buffers s2 = instance_buffers s1"
    by auto
  have "file_positions s2 = file_positions s1"
    using f2(1) f1 by (simp add: fun_upd_idem)
  with s1 s2 f1 f2 p1 assms(2,3,6,7) show ?thesis
    by (auto simp: loop_iter_no_key)
qed

theorem exactly_once_read_witness:
  "\<exists>s1 s2. loop_iter hello_world (Key (- 1)) caught_up_viewer = Continue s1
      \<and> instance_buffers s1 1 = Some [''a\<newline>'', ''hello\<newline>'']
      \<and> position_of s1 1 = 8
      \<and> loop_iter hello_world CursesError s1 = Continue s2
      \<and> instance_buffers s2 = instance_buffers s1
      \<and> file_positions s2 = file_positions s1"
  using exactly_once_read [of caught_up_viewer "[''a\<newline>'']" "''a\<newline>''" hello_world hello_world
      "Key (- 1)" CursesError 0 0]
  by (simp add: caught_up_viewer_def hello_world_def initial_viewer_def position_of_def
      instance_path_def path_join_def str_int_def str_nat.simps digit_char_def key_code_def
      count_running_def)

subsection \<open>Switching between sources\<close>

text \<open>
  Claim C2. The viewer watches source 2, whose buffer holds the line \<open>a\<close> exactly once.
  Pressing \<open>3\<close> and then \<open>2\<close> leads back to source 2 with its buffer and its stored
  position as they were: the line is there exactly once, neither lost nor duplicated by
  a second load of the file. (There are at least three sources, and the liveness probe
  of the status bar is assumed not to raise.)
\<close>

theorem switch_away_and_back:
  fixes s :: viewer and w1 w2 :: world and buf b3 :: "string list" and r1 r2 :: int
  assumes "current s = 2" and "3 \<le> count s"
    and "instance_buffers s 2 = Some buf"
    and "count_list buf ''a\<newline>'' = 1"
    and "instance_buffers s 3 = Some b3"
    and "count_running w1 (pids_file s) = Inr r1"
    and "count_running w2 (pids_file s) = Inr r2"
  shows "\<exists>s1 s2. loop_iter w1 (Key (ord CHR ''3'')) s = Continue s1 \<and> current s1 = 3
           \<and> loop_iter w2 (Key (ord CHR ''2'')) s1 = Continue s2 \<and> current s2 = 2
           \<and> instance_buffers s2 2 = Some buf
           \<and> instance_buffers s2 2 = instance_buffers s 2
           \<and> file_positions s2 2 = file_positions s 2
           \<and> count_list buf ''a\<newline>'' = 1"
proof -
  have k3: "loop_iter w1 (Key (ord CHR ''3'')) s = switch_to w1 3 s"
    using assms(1,2) loop_iter_switch [of "ord CHR ''3''" s w1] by (simp add: ord_def)
  from switch_to_fields [OF assms(5,6)] obtain s1 where
    s1: "switch_to w1 3 s = Continue s1" and
    f1: "current s1 = 3" "count s1 = count s" "pids_file s1 = pids_file s"
        "instance_buffers s1 2 = instance_buffers s 2" "file_positions s1 2 = file_positions s 2"
    by auto
  have k2: "loop_iter w2 (Key (ord CHR ''2'')) s1 = switch_to w2 2 s1"
    using assms(2) f1 loop_iter_switch [of "ord CHR ''2''" s1 w2] by (simp add: ord_def)
  have ne: "buf \<noteq> []"
    using assms(4) by auto
  have b2: "instance_buffers s1 2 = Some buf"
    using f1 assms(3) by simp
  have lv: "count_running w2 (pids_file s1) = Inr r2"
    using f1 assms(7) by simp
  from switch_to_fields [OF b2 lv] ne obtain s2 where
    s2: "switch_to w2 2 s1 = Continue s2" and
    f2: "current s2 = 2" "instance_buffers s2 = instance_buffers s1"
        "file_positions s2 = file_positions s1"
    by auto
  from k3 s1 f1 k2 s2 f2 b2 assms(4) show ?thesis by simp
qed

theorem switch_away_and_back_witness:
  "\<exists>s1 s2. loop_iter three_logs_world (Key 51) watching_two = Continue s1 \<and> current s1 = 3
      \<and> loop_iter three_logs_world (Key 50) s1 = Continue s2 \<and> current s2 = 2
      \<and> instance_buffers s2 2 = Some [''a\<newline>'']
      \<and> instance_buffers s2 2 = instance_buffers watching_two 2
      \<and> file_positions s2 2 = file_positions watching_two 2"
  using switch_away_and_back [of watching_two "[''a\<newline>'']" "[]" three_logs_world 0
      three_logs_world 0]
  by (simp add: watching_two_def three_logs_world_def initial_viewer_def count_running_def ord_def)




subsection \<open>The status bar\<close>




subsection \<open>The viewport\<close>

text \<open>
  Claim C9. The lines \<open>draw_log\<close> selects for display: when the buffer is longer than
  the viewport height \<open>h\<close>, exactly its last \<open>h\<close> lines, in their order; otherwise the
  whole buffer. Drawing leaves the buffers of the viewer as they were. The viewport
  height is \<open>height - 1\<close> with \<open>height \<ge> 3\<close>, so it is positive.
\<close>

theorem visible_lines_viewport:
  fixes h :: int and buf :: "string list" and s :: viewer
  shows "(0 < h \<and> h < int (length buf) \<longrightarrow>
            visible_lines h buf = drop (length buf - nat h) buf
            \<and> length (visible_lines h buf) = nat h)
         \<and> (int (length buf) \<le> h \<longrightarrow> visible_lines h buf = buf)
         \<and> instance_buffers (draw_log buf s) = instance_buffers s"
proof (intro conjI impI)
  assume long: "0 < h \<and> h < int (length buf)"
  then have "visible_lines h buf = py_slice_from (- h) buf"
    by (simp add: visible_lines_def)
  also from long have "\<dots> = drop (length buf - nat h) buf"
    by (simp add: py_slice_from_def)
  finally show "visible_lines h buf = drop (length buf - nat h) buf" .
  with long show "length (visible_lines h buf) = nat h"
    by auto
next
  assume "int (length buf) \<le> h"
  then show "visible_lines h buf = buf"
    by (simp add: visible_lines_def)
next
  show "instance_buffers (draw_log buf s) = instance_buffers s"
    by (simp add: draw_log_def)
qed

theorem visible_lines_viewport_witness:
  "visible_lines 2 [''a'', ''b'', ''c''] = [''b'', ''c'']
   \<and> visible_lines 2 [''a''] = [''a'']"
  using visible_lines_viewport [of 2 "[''a'', ''b'', ''c'']"]
    visible_lines_viewport [of 2 "[''a'']"]
  by simp

subsection \<open>Quitting\<close>

text \<open>
  Claim C4, as the code has it. In every state of the loop, whichever source is
  watched, the key \<open>q\<close>, the key \<open>Q\<close> or the control character with code 4 (EOT,
  Ctrl-D) makes that same iteration leave the loop, and the interactive viewer returns
  exit status 0.
\<close>

theorem quit_keys_return_zero:
  fixes ch :: int and inp :: "nat \<Rightarrow> getch \<times> world" and n :: nat and s :: viewer
  assumes "ch = ord CHR ''q'' \<or> ch = ord CHR ''Q'' \<or> ch = 4"
    and "fst (inp n) = Key ch"
  shows "loop_iter (snd (inp n)) (Key ch) s = Return 0
         \<and> curses_loop inp n s = Some (Returned 0)"
proof -
  have q: "is_quit (key_code (Key ch))"
    using assms(1) by (simp add: is_quit_def key_code_def)
  then have "is_quit (key_code (fst (inp n)))"
    by (simp add: assms(2))
  then have "curses_loop inp n s = Some (Returned 0)"
    by (rule curses_loop_quit_now)
  with loop_iter_quit [OF q] show ?thesis by simp
qed

theorem quit_keys_return_zero_witness:
  "loop_iter empty_world (Key 113) (initial_viewer ''logs'' 3 [] 24 80) = Return 0
   \<and> curses_loop quit_input 0 (initial_viewer ''logs'' 3 [] 24 80) = Some (Returned 0)"
  using quit_keys_return_zero [of 113 quit_input 0 "initial_viewer ''logs'' 3 [] 24 80"]
  by (simp add: quit_input_def ord_def)

text \<open>
  Claim C4, as stated, fails for the interrupt character: that is ETX, code 3
  (Ctrl-C), and the loop does not test for it. An iteration that reads code 3 goes on
  to the content refresh and the loop continues.
\<close>

theorem interrupt_key_counterexample:
  "loop_iter empty_world (Key 3) (initial_viewer ''logs'' 3 [] 24 80)
     = Continue ((initial_viewer ''logs'' 3 [] 24 80)
                   \<lparr>file_positions := [1 \<mapsto> 0], status_redraw_counter := 1\<rparr>)"
  by (simp add: ord_def initial_viewer_def empty_world_def read_new_lines_cases
      loop_iter_def key_code_def is_quit_def refresh_and_tick_def refresh_content_def
      position_of_def status_tick_def Let_def)

subsection \<open>Liveness\<close>

text \<open>
  Claim C7 fails on the code. \<open>count_running\<close> is meant never to raise, and both it and
  \<open>_process_exists\<close> catch \<open>OSError\<close>; but a line of digits in the PID file that
  exceeds the range of \<open>pid_t\<close> makes \<open>os.kill\<close> raise \<open>OverflowError\<close>, which neither
  \<open>except\<close> clause catches. Here the PID file holds the single line \<open>2147483648\<close>.
\<close>

theorem count_running_overflow:
  "isfile (files overflow_world) ''pids''
   \<and> open_read (files overflow_world) ''pids'' = Inr ''2147483648\<newline>''
   \<and> parse_pids ''2147483648\<newline>'' = [2147483648]
   \<and> process_exists (procs overflow_world) 2147483648 = Inl OverflowError
   \<and> count_running overflow_world ''pids'' = Inl OverflowError"
  by (simp add: count_running_def overflow_world_def isfile_def open_read_def parse_pids_overflow
      process_exists_def os_kill0_def)

subsection \<open>Exit status\<close>




subsection \<open>The fallback viewer never returns\<close>


end
